theory Spec2Isabelle
  imports Complex_Main
begin

section \<open>Dodge the Blocks: the simulation of game.js\<close>

text \<open>
  The program is one JavaScript module, \<^verbatim>\<open>src/game.js\<close>. Its module-level variables
  become one record \<open>state\<close>, and every function that mutates them becomes a function
  from state to state. JavaScript numbers are modelled as real numbers: the arithmetic of
  the game is read exactly, without the rounding of IEEE doubles and without NaN or
  infinities. The two dimensions of the canvas element come from the page, which is not
  part of the module, so they are a parameter \<open>canvas\<close> of every function that reads
  them. Each call of \<^verbatim>\<open>Math.random()\<close> is a parameter as well: \<open>spawnBlock\<close> makes four
  calls, handed over as a record \<open>draws\<close> of four numbers.
\<close>

subsection \<open>Data\<close>

text \<open>
  \<^verbatim>\<open>checkCollision\<close> reads the fields \<^verbatim>\<open>x, y, w, h\<close> of any object. Player and blocks
  share them (and \<^verbatim>\<open>speed\<close>), so both extend one record of rectangles.
\<close>

record rect =
  x :: real
  y :: real
  w :: real
  h :: real

record mover = rect +
  speed :: real

record player_obj = mover +
  vx :: real

record block = mover +
  shape :: string

record key_flags =
  left :: bool
  right :: bool

record canvas =
  width :: real
  height :: real

record draws =
  u_width :: real
  u_x :: real
  u_speed :: real
  u_shape :: real

text \<open>What \<^verbatim>\<open>draw\<close> paints on the canvas after clearing it (colours left out).\<close>

datatype paint = FillRect real real real real | FillCircle real real real

text \<open>
  The module's variables, followed by what the module shows to its host: the number
  last handed to \<^verbatim>\<open>updateScoreDisplay\<close> (the label's text is \<^verbatim>\<open>'Score: '\<close> followed by
  that number with two decimals; the formatting is not modelled), the picture on the
  canvas, and how many times \<^verbatim>\<open>requestAnimationFrame(loop)\<close> has been called.
\<close>

record state =
  running :: bool
  lastTime :: real
  elapsed :: real
  spawnTimer :: real
  spawnInterval :: real
  blocks :: "block list"
  player :: player_obj
  keys :: key_flags
  scoreShown :: real
  painted :: "paint list"
  frameRequests :: nat

subsection \<open>Utilities\<close>

definition clamp :: "real \<Rightarrow> real \<Rightarrow> real \<Rightarrow> real" where
  "clamp v a b = max a (min b v)"

text \<open>\<^verbatim>\<open>rand(min, max)\<close>, with the value \<open>u\<close> of its call of \<^verbatim>\<open>Math.random()\<close>.\<close>

definition rand :: "real \<Rightarrow> real \<Rightarrow> real \<Rightarrow> real" where
  "rand u mn mx = u * (mx - mn) + mn"

text \<open>\<^verbatim>\<open>Math.random()\<close> returns a number from 0 (included) to 1 (excluded).\<close>

definition unit_draws :: "draws \<Rightarrow> bool" where
  "unit_draws r \<longleftrightarrow>
     0 \<le> u_width r \<and> u_width r < 1 \<and> 0 \<le> u_x r \<and> u_x r < 1 \<and>
     0 \<le> u_speed r \<and> u_speed r < 1 \<and> 0 \<le> u_shape r \<and> u_shape r < 1"

subsection \<open>Game functions\<close>

definition updateScoreDisplay :: "real \<Rightarrow> state \<Rightarrow> state" where
  "updateScoreDisplay t s = s\<lparr>scoreShown := t\<rparr>"

definition resetGame :: "canvas \<Rightarrow> state \<Rightarrow> state" where
  "resetGame cv s =
     updateScoreDisplay 0
       (s\<lparr>running := False,
          lastTime := 0,
          elapsed := 0,
          spawnTimer := 0,
          spawnInterval := 0.9,
          blocks := [],
          player := (player s)\<lparr>x := width cv / 2 - w (player s) / 2,
                                y := height cv - h (player s) - 20\<rparr>,
          keys := \<lparr>left = False, right = False\<rparr>\<rparr>)"

definition endGame :: "state \<Rightarrow> state" where
  "endGame s = s\<lparr>running := False\<rparr>"

definition spawnBlock :: "canvas \<Rightarrow> draws \<Rightarrow> state \<Rightarrow> state" where
  "spawnBlock cv r s =
     (let bw = real_of_int \<lfloor>rand (u_width r) 30 70\<rfloor>;
          bx = real_of_int \<lfloor>rand (u_x r) 0 (width cv - bw)\<rfloor>;
          speedBase = 120 + elapsed s * 20;
          b = \<lparr>x = bx, y = - bw, w = bw, h = bw,
               speed = speedBase + rand (u_speed r) 0 60,
               shape = (if u_shape r < 0.5 then ''rect'' else ''circle'')\<rparr>
      in s\<lparr>blocks := blocks s @ [b]\<rparr>)"

definition checkCollision :: "'a rect_scheme \<Rightarrow> 'b rect_scheme \<Rightarrow> bool" where
  "checkCollision a b \<longleftrightarrow>
     x a < x b + w b \<and> x a + w a > x b \<and> y a < y b + h b \<and> y a + h a > y b"

text \<open>The statement \<^verbatim>\<open>b.y += b.speed * dt\<close> of the block loop.\<close>

definition fall :: "real \<Rightarrow> block \<Rightarrow> block" where
  "fall dt b = b\<lparr>y := y b + speed b * dt\<rparr>"

text \<open>\<^verbatim>\<open>blocks.splice(i, 1)\<close>: the element at index \<open>i\<close> leaves, if there is one.\<close>

definition splice1 :: "nat \<Rightarrow> 'a list \<Rightarrow> 'a list" where
  "splice1 i bs = take i bs @ drop (Suc i) bs"

text \<open>
  The loop \<^verbatim>\<open>for (let i = blocks.length - 1; i >= 0; i--)\<close> of \<^verbatim>\<open>update\<close>. The first
  argument is the number of indices still to visit: at \<open>Suc i\<close> the body runs at
  index \<open>i\<close>. The body reads \<^verbatim>\<open>blocks[i]\<close>, adds to its \<open>y\<close> in place, and then either
  removes it, or ends the game, or does nothing more. \<^verbatim>\<open>update\<close> starts the loop at the
  length of the collection, and a removal at index \<open>i\<close> leaves the \<open>i\<close> elements below
  it, so every index that is read is in range (\<open>loop_index_in_range\<close> below); the
  \<^verbatim>\<open>TypeError\<close> of a read beyond the end cannot happen and has no branch here.
\<close>

fun block_loop :: "canvas \<Rightarrow> real \<Rightarrow> nat \<Rightarrow> state \<Rightarrow> state" where
  "block_loop cv dt 0 s = s"
| "block_loop cv dt (Suc i) s =
     (let b = fall dt (blocks s ! i);
          s1 = s\<lparr>blocks := (blocks s)[i := b]\<rparr>
      in block_loop cv dt i
           (if y b > height cv then s1\<lparr>blocks := splice1 i (blocks s1)\<rparr>
            else if checkCollision (player s1) b then endGame s1
            else s1))"

text \<open>The statements of \<^verbatim>\<open>update\<close> before its loop (lines 77 to 92).\<close>

definition update_head :: "canvas \<Rightarrow> draws \<Rightarrow> real \<Rightarrow> state \<Rightarrow> state" where
  "update_head cv r dt s =
     (let s1 = s\<lparr>elapsed := elapsed s + dt\<rparr>;
          s2 = s1\<lparr>spawnInterval := clamp (0.9 - elapsed s1 * 0.02) 0.28 0.9\<rparr>;
          dir = (if right (keys s2) then 1 else 0) - (if left (keys s2) then 1 else (0::real));
          s3 = s2\<lparr>player := (player s2)\<lparr>x := x (player s2) + dir * speed (player s2) * dt\<rparr>\<rparr>;
          s4 = s3\<lparr>player := (player s3)\<lparr>x := clamp (x (player s3)) 0 (width cv - w (player s3))\<rparr>\<rparr>;
          s5 = s4\<lparr>spawnTimer := spawnTimer s4 + dt\<rparr>
      in if spawnTimer s5 \<ge> spawnInterval s5
         then (spawnBlock cv r s5)\<lparr>spawnTimer := 0\<rparr>
         else s5)"

definition update :: "canvas \<Rightarrow> draws \<Rightarrow> real \<Rightarrow> state \<Rightarrow> state" where
  "update cv r dt s =
     (let s1 = update_head cv r dt s
      in block_loop cv dt (length (blocks s1)) s1)"

definition draw_block :: "block \<Rightarrow> paint" where
  "draw_block b =
     (if shape b = ''circle''
      then FillCircle (x b + w b / 2) (y b + h b / 2) (w b / 2)
      else FillRect (x b) (y b) (w b) (h b))"

definition draw :: "state \<Rightarrow> state" where
  "draw s =
     s\<lparr>painted := FillRect (x (player s)) (y (player s)) (w (player s)) (h (player s))
                    # map draw_block (blocks s)\<rparr>"

text \<open>
  \<^verbatim>\<open>loop(now)\<close>, the frame callback. The draws are those of the one \<^verbatim>\<open>spawnBlock\<close>
  call that \<^verbatim>\<open>update\<close> may make.
\<close>

definition loop :: "canvas \<Rightarrow> draws \<Rightarrow> real \<Rightarrow> state \<Rightarrow> state" where
  "loop cv r now s =
     (if \<not> running s then s
      else
        (let dt = (now - lastTime s) / 1000;
             s1 = s\<lparr>lastTime := now\<rparr>;
             s2 = update cv r dt s1;
             s3 = draw s2;
             s4 = updateScoreDisplay (elapsed s3) s3
         in s4\<lparr>frameRequests := Suc (frameRequests s4)\<rparr>))"

text \<open>\<^verbatim>\<open>startGame()\<close>, with the value \<open>now\<close> of its call of \<^verbatim>\<open>performance.now()\<close>.\<close>

definition startGame :: "canvas \<Rightarrow> real \<Rightarrow> state \<Rightarrow> state" where
  "startGame cv now s =
     (let s1 = resetGame cv s;
          s2 = s1\<lparr>running := True\<rparr>;
          s3 = s2\<lparr>lastTime := now\<rparr>
      in s3\<lparr>frameRequests := Suc (frameRequests s3)\<rparr>)"

text \<open>The two key handlers, with the event's \<^verbatim>\<open>key\<close>.\<close>

definition keydown :: "string \<Rightarrow> state \<Rightarrow> state" where
  "keydown k s =
     (let s1 = (if k = ''ArrowLeft'' \<or> k = ''a'' then s\<lparr>keys := (keys s)\<lparr>left := True\<rparr>\<rparr> else s)
      in if k = ''ArrowRight'' \<or> k = ''d'' then s1\<lparr>keys := (keys s1)\<lparr>right := True\<rparr>\<rparr> else s1)"

definition keyup :: "string \<Rightarrow> state \<Rightarrow> state" where
  "keyup k s =
     (let s1 = (if k = ''ArrowLeft'' \<or> k = ''a'' then s\<lparr>keys := (keys s)\<lparr>left := False\<rparr>\<rparr> else s)
      in if k = ''ArrowRight'' \<or> k = ''d'' then s1\<lparr>keys := (keys s1)\<lparr>right := False\<rparr>\<rparr> else s1)"

text \<open>
  The states of a run: \<^verbatim>\<open>resetGame\<close> or \<^verbatim>\<open>startGame\<close> from anywhere, then key events and
  calls of \<^verbatim>\<open>update\<close>, alone or inside the frame callback, with a time step that is not
  negative and draws that \<^verbatim>\<open>Math.random()\<close> can return.
\<close>

inductive reachable :: "canvas \<Rightarrow> state \<Rightarrow> bool" for cv :: canvas where
  reach_reset: "reachable cv (resetGame cv s)"
| reach_start: "reachable cv (startGame cv now s)"
| reach_update: "reachable cv s \<Longrightarrow> 0 \<le> dt \<Longrightarrow> unit_draws r \<Longrightarrow> reachable cv (update cv r dt s)"
| reach_loop: "reachable cv s \<Longrightarrow> lastTime s \<le> now \<Longrightarrow> unit_draws r \<Longrightarrow> reachable cv (loop cv r now s)"
| reach_keydown: "reachable cv s \<Longrightarrow> reachable cv (keydown k s)"
| reach_keyup: "reachable cv s \<Longrightarrow> reachable cv (keyup k s)"

subsection \<open>Example inputs\<close>

text \<open>
  The values the module gives its variables when it is loaded (lines 11 to 29), before
  the call of \<^verbatim>\<open>resetGame()\<close> on its last line; the label and the canvas are still
  empty and no frame has been requested.
\<close>

definition module_state :: "canvas \<Rightarrow> state" where
  "module_state cv =
     \<lparr>running = False, lastTime = 0, elapsed = 0, spawnTimer = 0, spawnInterval = 0.9,
      blocks = [],
      player = \<lparr>x = width cv / 2 - 24, y = height cv - 80, w = 28, h = 18,
                 speed = 280, vx = 0\<rparr>,
      keys = \<lparr>left = False, right = False\<rparr>,
      scoreShown = 0, painted = [], frameRequests = 0\<rparr>"

definition loaded :: "canvas \<Rightarrow> state" where
  "loaded cv = resetGame cv (module_state cv)"

text \<open>A page with a canvas of 480 by 640 pixels, and four draws in the middle.\<close>

definition page_canvas :: canvas where
  "page_canvas = \<lparr>width = 480, height = 640\<rparr>"

definition mid_draws :: draws where
  "mid_draws = \<lparr>u_width = 1/2, u_x = 1/2, u_speed = 1/2, u_shape = 1/2\<rparr>"

text \<open>
  A run on that page: the game is started at time 0 and the first frame comes 0.9
  seconds later. The frame spawns one block, 50 wide at \<open>x = 215\<close>, and moves it.
\<close>

definition first_frame :: state where
  "first_frame = update page_canvas mid_draws 0.9 (startGame page_canvas 0 (loaded page_canvas))"

section \<open>The block loop in closed form\<close>

text \<open>
  The index stays in range: when \<open>i + 1\<close> indices are left and the collection has at
  least that many elements, index \<open>i\<close> exists, and each of the three ways the body can
  end leaves at least \<open>i\<close> elements for the indices still to come.
\<close>

lemma loop_index_in_range:
  "Suc i \<le> length bs \<Longrightarrow>
   i < length bs \<and> i \<le> length (bs[i := b]) \<and> i \<le> length (splice1 i (bs[i := b]))"
  by (simp add: splice1_def)

text \<open>
  The loop moves every block it visits, drops those that left the playfield, and clears
  \<open>running\<close> when one of the others overlaps the player.
\<close>

lemma block_loop_closed:
  "n \<le> length (blocks s) \<Longrightarrow>
   block_loop cv dt n s =
     s\<lparr>running := running s \<and>
          (\<forall>b \<in> set (take n (blocks s)).
             height cv < y (fall dt b) \<or> \<not> checkCollision (player s) (fall dt b)),
       blocks := filter (\<lambda>b. \<not> height cv < y b) (map (fall dt) (take n (blocks s)))
                 @ drop n (blocks s)\<rparr>"
proof (induction n arbitrary: s)
  case 0
  show ?case by simp
next
  case (Suc i)
  then have i: "i < length (blocks s)" by simp
  have tk: "take (Suc i) (blocks s) = take i (blocks s) @ [blocks s ! i]"
    using i by (simp add: take_Suc_conv_app_nth)
  show ?case
  proof (cases "height cv < y (fall dt (blocks s ! i))")
    case True
    with i show ?thesis
      by (simp add: Let_def splice1_def tk Suc.IH min_def)
  next
    case off: False
    show ?thesis
    proof (cases "checkCollision (player s) (fall dt (blocks s ! i))")
      case True
      with off i show ?thesis
        by (simp add: Let_def tk Suc.IH endGame_def min_def drop_update_cancel
            upd_conv_take_nth_drop)
    next
      case False
      with off i show ?thesis
        by (auto simp add: Let_def tk Suc.IH min_def upd_conv_take_nth_drop
            ball_Un)
    qed
  qed
qed

section \<open>One frame in closed form\<close>

lemma update_closed:
  "update cv r dt s =
     (update_head cv r dt s)
       \<lparr>running := running (update_head cv r dt s) \<and>
          (\<forall>b \<in> set (blocks (update_head cv r dt s)).
             height cv < y (fall dt b) \<or>
             \<not> checkCollision (player (update_head cv r dt s)) (fall dt b)),
        blocks := filter (\<lambda>b. \<not> height cv < y b)
                    (map (fall dt) (blocks (update_head cv r dt s)))\<rparr>"
  by (simp add: update_def Let_def block_loop_closed)


lemma head_spawnInterval:
  "spawnInterval (update_head cv r dt s) = clamp (0.9 - (elapsed s + dt) * 0.02) 0.28 0.9"
  by (simp add: update_head_def Let_def spawnBlock_def)

lemma head_player:
  "player (update_head cv r dt s) =
     (player s)\<lparr>x := clamp (x (player s) +
        ((if right (keys s) then 1 else 0) - (if left (keys s) then 1 else 0))
          * speed (player s) * dt) 0 (width cv - w (player s))\<rparr>"
  by (simp add: update_head_def Let_def spawnBlock_def)

lemma head_keys: "keys (update_head cv r dt s) = keys s"
  by (simp add: update_head_def Let_def spawnBlock_def)

lemma head_running: "running (update_head cv r dt s) = running s"
  by (simp add: update_head_def Let_def spawnBlock_def)


lemma head_spawnTimer:
  "spawnTimer (update_head cv r dt s) =
     (if spawnTimer s + dt \<ge> clamp (0.9 - (elapsed s + dt) * 0.02) 0.28 0.9
      then 0 else spawnTimer s + dt)"
  by (simp add: update_head_def Let_def spawnBlock_def)

lemma clamp_bounds: "a \<le> b \<Longrightarrow> a \<le> clamp v a b \<and> clamp v a b \<le> b"
  by (simp add: clamp_def)



lemma update_player: "player (update cv r dt s) = player (update_head cv r dt s)"
  by (simp add: update_closed)

text \<open>What the other functions do to the fields that \<open>update\<close> works on.\<close>

lemma loop_fields:
  "elapsed (loop cv r now s) =
     (if running s then elapsed (update cv r ((now - lastTime s) / 1000) (s\<lparr>lastTime := now\<rparr>))
      else elapsed s)"
  "blocks (loop cv r now s) =
     (if running s then blocks (update cv r ((now - lastTime s) / 1000) (s\<lparr>lastTime := now\<rparr>))
      else blocks s)"
  "spawnTimer (loop cv r now s) =
     (if running s then spawnTimer (update cv r ((now - lastTime s) / 1000) (s\<lparr>lastTime := now\<rparr>))
      else spawnTimer s)"
  "spawnInterval (loop cv r now s) =
     (if running s then spawnInterval (update cv r ((now - lastTime s) / 1000) (s\<lparr>lastTime := now\<rparr>))
      else spawnInterval s)"
  "player (loop cv r now s) =
     (if running s then player (update cv r ((now - lastTime s) / 1000) (s\<lparr>lastTime := now\<rparr>))
      else player s)"
  by (simp_all add: loop_def Let_def draw_def updateScoreDisplay_def)

lemma key_fields:
  "elapsed (keydown k s) = elapsed s" "elapsed (keyup k s) = elapsed s"
  "blocks (keydown k s) = blocks s" "blocks (keyup k s) = blocks s"
  "spawnTimer (keydown k s) = spawnTimer s" "spawnTimer (keyup k s) = spawnTimer s"
  "spawnInterval (keydown k s) = spawnInterval s" "spawnInterval (keyup k s) = spawnInterval s"
  "player (keydown k s) = player s" "player (keyup k s) = player s"
  by (simp_all add: keydown_def keyup_def Let_def)

lemma reset_fields:
  "elapsed (resetGame cv s) = 0" "blocks (resetGame cv s) = []"
  "spawnTimer (resetGame cv s) = 0" "spawnInterval (resetGame cv s) = 0.9"
  "elapsed (startGame cv now s) = 0" "blocks (startGame cv now s) = []"
  "spawnTimer (startGame cv now s) = 0" "spawnInterval (startGame cv now s) = 0.9"
  by (simp_all add: resetGame_def startGame_def updateScoreDisplay_def Let_def)

section \<open>The example run\<close>

lemma first_frame_value:
  "first_frame =
     \<lparr>running = True, lastTime = 0, elapsed = 0.9, spawnTimer = 0, spawnInterval = 0.882,
      blocks = [\<lparr>x = 215, y = 101.2, w = 50, h = 50, speed = 168, shape = ''circle''\<rparr>],
      player = \<lparr>x = 226, y = 602, w = 28, h = 18, speed = 280, vx = 0\<rparr>,
      keys = \<lparr>left = False, right = False\<rparr>,
      scoreShown = 0, painted = [], frameRequests = 1\<rparr>"
  by (simp add: first_frame_def update_def update_head_def Let_def spawnBlock_def startGame_def
      loaded_def module_state_def resetGame_def updateScoreDisplay_def page_canvas_def
      mid_draws_def clamp_def rand_def fall_def checkCollision_def)

lemma first_frame_reachable: "reachable page_canvas first_frame"
  unfolding first_frame_def
  by (rule reach_update [OF reach_start]) (simp_all add: unit_draws_def mid_draws_def)



lemma second_frame_value:
  "update page_canvas mid_draws 3 first_frame =
     \<lparr>running = False, lastTime = 0, elapsed = 3.9, spawnTimer = 0, spawnInterval = 0.822,
      blocks = [\<lparr>x = 215, y = 605.2, w = 50, h = 50, speed = 168, shape = ''circle''\<rparr>,
                \<lparr>x = 215, y = 634, w = 50, h = 50, speed = 228, shape = ''circle''\<rparr>],
      player = \<lparr>x = 226, y = 602, w = 28, h = 18, speed = 280, vx = 0\<rparr>,
      keys = \<lparr>left = False, right = False\<rparr>,
      scoreShown = 0, painted = [], frameRequests = 1\<rparr>"
  by (simp add: first_frame_value update_def update_head_def Let_def spawnBlock_def
      page_canvas_def mid_draws_def clamp_def rand_def fall_def checkCollision_def endGame_def)

section \<open>The player stays on the playfield\<close>

text \<open>
  Claim C1. For every time step \<open>dt \<ge> 0\<close>, every combination of the two key flags and
  every starting position of the player, the player's \<open>x\<close> after \<open>update\<close> lies between
  0 and the canvas width minus the player's width. The canvas is taken to be at least as
  wide as the player; the clamp is the last assignment to \<open>x\<close> in the frame.
\<close>

theorem update_player_clamped:
  "0 \<le> dt \<Longrightarrow> w (player s) \<le> width cv \<Longrightarrow>
   0 \<le> x (player (update cv r dt s)) \<and>
   x (player (update cv r dt s)) \<le> width cv - w (player (update cv r dt s))"
  by (simp add: update_closed head_player clamp_def)

text \<open>
  From the loaded page with the right key held, one second moves the player from 226 to
  506, which the clamp brings back to 480 - 28.
\<close>

theorem update_player_clamped_witness:
  "(0::real) \<le> 1 \<and> w (player ((loaded page_canvas)\<lparr>keys := \<lparr>left = False, right = True\<rparr>\<rparr>)) \<le> width page_canvas \<and>
   x (player (update page_canvas mid_draws 1 ((loaded page_canvas)\<lparr>keys := \<lparr>left = False, right = True\<rparr>\<rparr>))) = 452"
  using update_player_clamped [of 1 "(loaded page_canvas)\<lparr>keys := \<lparr>left = False, right = True\<rparr>\<rparr>" page_canvas mid_draws]
  by (simp add: update_closed head_player clamp_def loaded_def module_state_def resetGame_def
      updateScoreDisplay_def page_canvas_def)

section \<open>The spawn interval\<close>

lemma interval_bounds:
  "0.28 \<le> clamp (0.9 - e * 0.02) 0.28 0.9 \<and> clamp (0.9 - e * 0.02) 0.28 0.9 \<le> 0.9"
  by (rule clamp_bounds) simp





section \<open>Collisions end the run\<close>


lemma head_player_y: "y (player (update_head cv r dt s)) = y (player s)"
  by (simp add: head_player)

lemma head_player_h: "h (player (update_head cv r dt s)) = h (player s)"
  by (simp add: head_player)

text \<open>
  In a run the player lies inside the playfield: \<open>resetGame\<close> puts its bottom edge 20
  above the bottom of the canvas, and nothing else moves it vertically or resizes it.
\<close>

lemma reachable_player_inside:
  "reachable cv s \<Longrightarrow> y (player s) + h (player s) \<le> height cv"
proof (induction rule: reachable.induct)
  case (reach_reset s)
  show ?case by (simp add: resetGame_def updateScoreDisplay_def)
next
  case (reach_start now s)
  show ?case by (simp add: startGame_def Let_def resetGame_def updateScoreDisplay_def)
next
  case (reach_update s dt r)
  then show ?case by (simp add: update_player head_player_y head_player_h)
next
  case (reach_loop s now r)
  then show ?case
    using head_player_y [of cv r "(now - lastTime s) / 1000" "s\<lparr>lastTime := now\<rparr>"]
      head_player_h [of cv r "(now - lastTime s) / 1000" "s\<lparr>lastTime := now\<rparr>"]
    by (simp add: loop_fields update_player)
qed (simp_all add: key_fields)



section \<open>Blocks fall until they leave the playfield\<close>












section \<open>The collision test\<close>




section \<open>Spawning\<close>





section \<open>Reset\<close>

text \<open>
  Claim C7. Running \<open>resetGame\<close> twice gives the state that running it once gives, from
  every state. That state has \<open>running\<close> false, \<open>elapsed\<close> and \<open>spawnTimer\<close> 0,
  \<open>spawnInterval\<close> 0.9, no blocks, the player centred (its \<open>x\<close> plus half its width is
  half the canvas width) with its bottom edge 20 above the bottom of the canvas, both key
  flags false and 0 on the score label; nothing else changes.
\<close>

theorem resetGame_idempotent:
  "resetGame cv (resetGame cv s) = resetGame cv s \<and>
   resetGame cv s =
     s\<lparr>running := False, lastTime := 0, elapsed := 0, spawnTimer := 0, spawnInterval := 0.9,
       blocks := [],
       player := (player s)\<lparr>x := width cv / 2 - w (player s) / 2,
                             y := height cv - h (player s) - 20\<rparr>,
       keys := \<lparr>left = False, right = False\<rparr>,
       scoreShown := 0\<rparr>"
  by (simp add: resetGame_def updateScoreDisplay_def)

section \<open>The frame callback after the end of the run\<close>

text \<open>
  Claim C8. When \<open>running\<close> is false, the frame callback returns at once: the whole
  state stays as it is, in particular no further frame is requested, and so it stays
  through any sequence of later calls of the callback.
\<close>

theorem loop_stopped:
  "\<not> running s \<Longrightarrow>
   loop cv r now s = s \<and>
   frameRequests (loop cv r now s) = frameRequests s \<and>
   foldl (\<lambda>t (r, now). loop cv r now t) s frames = s"
proof -
  assume stop: "\<not> running s"
  then have one: "loop cv r now s = s" for r now
    by (simp add: loop_def)
  have "foldl (\<lambda>t (r, now). loop cv r now t) s frames = s"
    by (induction frames) (simp_all add: one split: prod.splits)
  with one show ?thesis by simp
qed

text \<open>The example run after its collision, with callbacks at 4000 and 4016 milliseconds.\<close>

theorem loop_stopped_witness:
  "\<not> running (update page_canvas mid_draws 3 first_frame) \<and>
   loop page_canvas mid_draws 4000 (update page_canvas mid_draws 3 first_frame)
     = update page_canvas mid_draws 3 first_frame \<and>
   foldl (\<lambda>t (r, now). loop page_canvas r now t) (update page_canvas mid_draws 3 first_frame)
     [(mid_draws, 4000), (mid_draws, 4016)] = update page_canvas mid_draws 3 first_frame \<and>
   frameRequests (loop page_canvas mid_draws 4000 (update page_canvas mid_draws 3 first_frame)) = 1"
proof -
  have stop: "\<not> running (update page_canvas mid_draws 3 first_frame)"
    by (simp add: second_frame_value)
  have fr: "frameRequests (update page_canvas mid_draws 3 first_frame) = 1"
    by (simp add: second_frame_value)
  from loop_stopped [OF stop, of page_canvas mid_draws 4000 "[(mid_draws, 4000), (mid_draws, 4016)]"]
    stop fr
  show ?thesis by auto
qed

section \<open>The spawn timer\<close>

lemma update_timer:
  "spawnTimer (update cv r dt s) < spawnInterval (update cv r dt s) \<and>
   spawnInterval (update cv r dt s) \<le> 0.9"
proof -
  have b: "0.28 \<le> clamp (0.9 - (elapsed s + dt) * 0.02) 0.28 0.9"
    "clamp (0.9 - (elapsed s + dt) * 0.02) 0.28 0.9 \<le> 0.9"
    using interval_bounds [of "elapsed s + dt"] by simp_all
  have t: "spawnTimer (update cv r dt s) =
     (if spawnTimer s + dt \<ge> clamp (0.9 - (elapsed s + dt) * 0.02) 0.28 0.9
      then 0 else spawnTimer s + dt)"
    by (simp add: update_closed head_spawnTimer)
  have i: "spawnInterval (update cv r dt s) = clamp (0.9 - (elapsed s + dt) * 0.02) 0.28 0.9"
    by (simp add: update_closed head_spawnInterval)
  show ?thesis
    unfolding t i using b by auto
qed

lemma reachable_timer:
  "reachable cv s \<Longrightarrow> spawnTimer s < spawnInterval s \<and> spawnInterval s \<le> 0.9"
proof (induction rule: reachable.induct)
  case (reach_update s dt r)
  show ?case by (rule update_timer)
next
  case (reach_loop s now r)
  then show ?case
    using update_timer [of cv r "(now - lastTime s) / 1000" "s\<lparr>lastTime := now\<rparr>"]
    by (simp add: loop_fields)
qed (simp_all add: reset_fields key_fields)

text \<open>
  Claim C9. In every state of a run, after a call of \<open>update\<close> with \<open>dt \<ge> 0\<close> the
  spawn timer is strictly below the spawn interval: a spawn puts the timer at 0, below
  the floor 0.28 of the interval, and without a spawn the timer was below the interval.
  Hence the timer is strictly below 0.9, after the frame and in the state before it.
\<close>

theorem spawnTimer_below_interval:
  assumes "reachable cv s" "0 \<le> dt"
  shows "spawnTimer (update cv r dt s) < spawnInterval (update cv r dt s) \<and>
         spawnTimer (update cv r dt s) < 0.9 \<and>
         spawnTimer s < 0.9"
  using update_timer [of cv r dt s] reachable_timer [OF assms(1)] by simp

text \<open>Half a second after the first frame of the example run.\<close>

theorem spawnTimer_below_interval_witness:
  "reachable page_canvas first_frame \<and> (0::real) \<le> 0.5 \<and>
   spawnTimer (update page_canvas mid_draws 0.5 first_frame) = 0.5 \<and>
   spawnInterval (update page_canvas mid_draws 0.5 first_frame) = 0.872 \<and>
   spawnTimer (update page_canvas mid_draws 0.5 first_frame)
     < spawnInterval (update page_canvas mid_draws 0.5 first_frame) \<and>
   spawnTimer first_frame < 0.9"
proof -
  have dt: "(0::real) \<le> 0.5" by simp
  have t: "spawnTimer (update page_canvas mid_draws 0.5 first_frame) = 0.5"
    by (simp add: update_closed head_spawnTimer first_frame_value clamp_def)
  have i: "spawnInterval (update page_canvas mid_draws 0.5 first_frame) = 0.872"
    by (simp add: update_closed head_spawnInterval first_frame_value clamp_def)
  from spawnTimer_below_interval [OF first_frame_reachable dt, of mid_draws] t i
    first_frame_reachable
  show ?thesis by simp
qed

section \<open>Degenerate rectangles\<close>




end
